theory Spec2Isabelle
  imports Main
begin

section \<open>The message broker of loco\_sim (\<open>src/sim_broker.py\<close>)\<close>

text \<open>
  The broker keeps a dict of outgoing message queues, keyed by destination address. One
  loop (\<open>_msgreceiver\<close>) accepts a connection, receives one hex-encoded frame and
  enqueues the decoded message; a second loop (\<open>_fetchwatcher\<close>) accepts a connection,
  receives a queue name and serves the next message of that queue; a third loop
  (\<open>_queueparser\<close>) only sleeps. Each loop body is modelled as a function from the
  connection it accepted and the broker state to the new broker state and the list of
  actions it performed, in program order.

  The module \<open>msg_lib\<close> (classes \<open>Message\<close> and \<open>MsgQueue\<close>) and the
  file \<open>conf.dat\<close> are not part of the sources at hand. The frame parser and the
  constant \<open>MAX_MSG_SIZE\<close> are parameters of the model (record \<open>env\<close>).
\<close>

subsection \<open>Exceptions\<close>

datatype exn =
    SocketError           \<comment> \<open>\<open>conn.recv\<close> or \<open>conn.send\<close> fails\<close>
  | UnicodeDecodeError    \<comment> \<open>\<open>str.decode()\<close> on a byte above 127\<close>
  | TypeError             \<comment> \<open>\<open>decode('hex')\<close>: odd length or a non-hexadecimal digit\<close>
  | MalformedMessage      \<comment> \<open>the constructor of \<open>Message\<close> rejects the frame\<close>
  | KeyError              \<comment> \<open>\<open>outgoing_queues[queue_name]\<close> on an unknown name\<close>
  | Empty                 \<comment> \<open>\<open>MsgQueue.pop\<close> on an empty queue\<close>

subsection \<open>The string codecs of Python 2\<close>

text \<open>
  \<open>s.decode()\<close> uses the ascii codec: it returns the same characters and raises on a
  byte that is not ascii.
\<close>

definition ascii_decode :: "string \<Rightarrow> exn + string" where
  "ascii_decode s =
     (if list_all (\<lambda>c. (of_char c :: nat) < 128) s then Inr s else Inl UnicodeDecodeError)"

text \<open>
  \<open>s.encode('hex')\<close> writes every byte as two lower-case hexadecimal digits.
  \<open>s.decode('hex')\<close> reads two digits of either case per byte and raises on an odd
  length or on any other character.
\<close>

definition hex_digit :: "nat \<Rightarrow> char" where
  "hex_digit n = (if n < 10 then char_of (48 + n) else char_of (87 + n))"

definition hex_val :: "char \<Rightarrow> nat option" where
  "hex_val c =
     (let n = (of_char c :: nat) in
      if 48 \<le> n \<and> n \<le> 57 then Some (n - 48)
      else if 97 \<le> n \<and> n \<le> 102 then Some (n - 87)
      else if 65 \<le> n \<and> n \<le> 70 then Some (n - 55)
      else None)"

fun hex_encode :: "string \<Rightarrow> string" where
  "hex_encode [] = []"
| "hex_encode (c # cs) =
     hex_digit ((of_char c :: nat) div 16) # hex_digit ((of_char c :: nat) mod 16) # hex_encode cs"

fun hex_decode :: "string \<Rightarrow> exn + string" where
  "hex_decode [] = Inr []"
| "hex_decode [a] = Inl TypeError"
| "hex_decode (a # b # cs) =
     (case hex_val a of
        None \<Rightarrow> Inl TypeError
      | Some x \<Rightarrow>
          (case hex_val b of
             None \<Rightarrow> Inl TypeError
           | Some y \<Rightarrow>
               (case hex_decode cs of
                  Inl e \<Rightarrow> Inl e
                | Inr r \<Rightarrow> Inr (char_of (16 * x + y) # r))))"

subsection \<open>Messages and message queues (\<open>msg_lib\<close>)\<close>

text \<open>
  The fields of a message. The broker reads \<open>dest_addr\<close>, \<open>sender_addr\<close> and
  \<open>raw_msg\<close> only; the payload is opaque to it, hence a type parameter.
\<close>

record 'p Message =
  raw_msg :: string
  msg_type :: nat
  sender_addr :: string
  dest_addr :: string
  payload :: 'p

type_synonym 'p parser = "string \<Rightarrow> (nat \<times> string \<times> string \<times> 'p) option"

text \<open>
  Modelled from the spec: the constructor \<open>Message(raw)\<close> of \<open>msg_lib\<close>, which is
  missing from the sources. The spec (Data Model, Message Codec) says that decoding parses
  type, sender address, destination address and payload out of the frame, fails on a
  malformed frame, and that \<open>rawBytes\<close> is the exact byte sequence received. The parsing
  itself is the parameter \<open>p\<close>.
\<close>

definition Message_init :: "'p parser \<Rightarrow> string \<Rightarrow> exn + 'p Message" where
  "Message_init p raw =
     (case p raw of
        None \<Rightarrow> Inl MalformedMessage
      | Some (t, src, dst, pl) \<Rightarrow>
          Inr \<lparr>raw_msg = raw, msg_type = t, sender_addr = src, dest_addr = dst, payload = pl\<rparr>)"

type_synonym 'p MsgQueue = "'p Message list"

text \<open>
  Modelled from the spec: the class \<open>MsgQueue\<close> of \<open>msg_lib\<close>, which is missing from
  the sources. The spec (Data Model, Queue) says that a queue is an ordered sequence served
  in arrival order and that popping removes the message; the broker imports the exception
  \<open>Empty\<close> for a pop that finds nothing. The spec (Fetch Listener, Expiry Sweeper) also
  lets a pop pass over a message whose time-to-live has elapsed. The broker passes neither
  a clock nor a time-to-live to \<open>MsgQueue()\<close>, \<open>push\<close> or \<open>pop\<close>, and whether
  \<open>pop\<close> reads them itself cannot be seen from the sources. Time is not part of this
  model: \<open>pop\<close> is the pop of the spec on a queue none of whose messages has expired,
  and nothing below is stated about a message past its time-to-live.
\<close>

definition MsgQueue_init :: "'p MsgQueue" where
  "MsgQueue_init = []"

definition push :: "'p MsgQueue \<Rightarrow> 'p Message \<Rightarrow> 'p MsgQueue" where
  "push q m = q @ [m]"

definition pop :: "'p MsgQueue \<Rightarrow> exn + ('p Message \<times> 'p MsgQueue)" where
  "pop q = (case q of [] \<Rightarrow> Inl Empty | m # r \<Rightarrow> Inr (m, r))"

subsection \<open>Environment, connections, broker state\<close>

record 'p env =
  MAX_MSG_SIZE :: nat       \<comment> \<open>\<open>int(config.get('messaging', 'max_msg_size'))\<close>\<close>
  parse :: "'p parser"      \<comment> \<open>the frame parser inside \<open>Message(...)\<close>\<close>

text \<open>
  An accepted connection: the bytes the client sent (\<open>None\<close> when \<open>recv\<close> raises), and
  whether \<open>send\<close> succeeds on it.
\<close>

record conn =
  recv_data :: "string option"
  send_ok :: bool

text \<open>The actions of a loop body, in program order.\<close>

datatype 'p event =
    Sent string                      \<comment> \<open>\<open>conn.send\<close> returned\<close>
  | Closed                           \<comment> \<open>\<open>conn.close()\<close>\<close>
  | Pushed string "'p Message"       \<comment> \<open>\<open>outgoing_queues[d].push(msg)\<close>\<close>
  | Popped string "'p Message"       \<comment> \<open>\<open>outgoing_queues[d].pop()\<close> returned \<open>msg\<close>\<close>

record 'p Broker =
  outgoing_queues :: "string \<rightharpoonup> 'p MsgQueue"
  running :: bool
  repl_running :: bool

definition Broker_init :: "'p Broker" where
  "Broker_init = \<lparr>outgoing_queues = Map.empty, running = False, repl_running = False\<rparr>"

definition conn_recv :: "nat \<Rightarrow> conn \<Rightarrow> exn + string" where
  "conn_recv n c = (case recv_data c of None \<Rightarrow> Inl SocketError | Some d \<Rightarrow> Inr (take n d))"

definition conn_send :: "conn \<Rightarrow> string \<Rightarrow> exn + 'p event list" where
  "conn_send c s = (if send_ok c then Inr [Sent s] else Inl SocketError)"

subsection \<open>\<open>Broker.start\<close> and \<open>Broker.stop\<close>\<close>

definition start :: "bool \<Rightarrow> 'p Broker \<Rightarrow> 'p Broker" where
  "start terminal s =
     (let s1 = (if \<not> running s then s\<lparr>running := True\<rparr> else s)
      in if terminal \<and> \<not> repl_running s1 then s1\<lparr>repl_running := True\<rparr> else s1)"

definition stop :: "'p Broker \<Rightarrow> 'p Broker" where
  "stop s = (if running s then s\<lparr>running := False\<rparr> else s)"

subsection \<open>\<open>Broker._msgreceiver\<close>: one iteration\<close>

text \<open>Lines 124 and 125: receive, decode as ascii, decode as hex, build the message.\<close>

definition recv_msg :: "'p env \<Rightarrow> conn \<Rightarrow> exn + 'p Message" where
  "recv_msg E c =
     (case conn_recv (MAX_MSG_SIZE E) c of
        Inl e \<Rightarrow> Inl e
      | Inr bytes \<Rightarrow>
          (case ascii_decode bytes of
             Inl e \<Rightarrow> Inl e
           | Inr raw \<Rightarrow>
               (case hex_decode raw of
                  Inl e \<Rightarrow> Inl e
                | Inr frame \<Rightarrow> Message_init (parse E) frame)))"

text \<open>The handler of line 128: try to send \<open>FAIL\<close>, ignore a failure, close.\<close>

definition reply_fail :: "conn \<Rightarrow> 'p event list" where
  "reply_fail c = (case conn_send c ''FAIL'' of Inl e \<Rightarrow> [] | Inr evs \<Rightarrow> evs) @ [Closed]"

text \<open>
  Lines 123 to 135: the \<open>try\<close> block with its handler. The result is the message when
  the block ran to its end, and \<open>None\<close> when the handler ran (\<open>continue\<close>).
\<close>

definition msgreceiver_reply :: "'p env \<Rightarrow> conn \<Rightarrow> 'p event list \<times> 'p Message option" where
  "msgreceiver_reply E c =
     (case recv_msg E c of
        Inl e \<Rightarrow> (reply_fail c, None)
      | Inr msg \<Rightarrow>
          (case conn_send c ''OK'' of
             Inl e \<Rightarrow> (reply_fail c, None)
           | Inr evs \<Rightarrow> (evs @ [Closed], Some msg)))"

text \<open>
  Lines 138 to 140. A queue object that is present is kept: were an empty
  \<open>MsgQueue\<close> falsy, line 139 would replace it by another empty one, which is the same
  list here.
\<close>

definition enqueue :: "'p Message \<Rightarrow> (string \<rightharpoonup> 'p MsgQueue) \<Rightarrow> (string \<rightharpoonup> 'p MsgQueue)" where
  "enqueue msg qs =
     (let d = dest_addr msg;
          qs1 = (case qs d of None \<Rightarrow> qs(d \<mapsto> MsgQueue_init) | Some q \<Rightarrow> qs)
      in case qs1 d of None \<Rightarrow> qs1 | Some q \<Rightarrow> qs1(d \<mapsto> push q msg))"

definition msgreceiver_body :: "'p env \<Rightarrow> conn \<Rightarrow> 'p Broker \<Rightarrow> 'p Broker \<times> 'p event list" where
  "msgreceiver_body E c s =
     (case msgreceiver_reply E c of
        (evs, None) \<Rightarrow> (s, evs)
      | (evs, Some msg) \<Rightarrow>
          (s\<lparr>outgoing_queues := enqueue msg (outgoing_queues s)\<rparr>,
           evs @ [Pushed (dest_addr msg) msg]))"

subsection \<open>\<open>Broker._fetchwatcher\<close>: one iteration\<close>

text \<open>Line 173: look the queue up and pop it.\<close>

definition fetch_pop ::
  "string \<Rightarrow> (string \<rightharpoonup> 'p MsgQueue) \<Rightarrow> exn + ('p Message \<times> (string \<rightharpoonup> 'p MsgQueue))" where
  "fetch_pop queue_name qs =
     (case qs queue_name of
        None \<Rightarrow> Inl KeyError
      | Some q \<Rightarrow>
          (case pop q of
             Inl e \<Rightarrow> Inl e
           | Inr (m, q') \<Rightarrow> Inr (m, qs(queue_name \<mapsto> q'))))"

text \<open>
  Lines 166 to 181. An exception outside the inner \<open>try\<close> leaves the iteration at once
  (\<open>continue\<close>): nothing more is sent and the connection is not closed.
\<close>

definition fetchwatcher_body :: "'p env \<Rightarrow> conn \<Rightarrow> 'p Broker \<Rightarrow> 'p Broker \<times> 'p event list" where
  "fetchwatcher_body E c s =
     (case conn_recv (MAX_MSG_SIZE E) c of
        Inl e \<Rightarrow> (s, [])
      | Inr bytes \<Rightarrow>
          (case ascii_decode bytes of
             Inl e \<Rightarrow> (s, [])
           | Inr queue_name \<Rightarrow>
               (case fetch_pop queue_name (outgoing_queues s) of
                  Inl e \<Rightarrow>
                    (case conn_send c ''EMPTY'' of
                       Inl e' \<Rightarrow> (s, [])
                     | Inr evs \<Rightarrow> (s, evs @ [Closed]))
                | Inr (msg, qs') \<Rightarrow>
                    (case conn_send c (hex_encode (raw_msg msg)) of
                       Inl e' \<Rightarrow> (s\<lparr>outgoing_queues := qs'\<rparr>, [Popped queue_name msg])
                     | Inr evs \<Rightarrow>
                         (s\<lparr>outgoing_queues := qs'\<rparr>,
                          Popped queue_name msg # evs @ [Closed])))))"

subsection \<open>\<open>Broker._queueparser\<close>: one iteration\<close>

text \<open>Lines 189 to 194: the body is a comment and \<open>sleep(REFRESH_TIME)\<close>.\<close>

definition queueparser_body :: "'p Broker \<Rightarrow> 'p Broker \<times> 'p event list" where
  "queueparser_body s = (s, [])"

subsection \<open>Runs of the broker\<close>

text \<open>
  The threads interleave at the grain of whole iterations. Each loop tests
  \<open>self.running\<close> before it accepts a connection. An \<open>accept\<close> that raises
  starts the next iteration and changes nothing, so it is not an operation here; the
  \<open>print\<close> calls are left out.
\<close>

datatype op =
    Submit conn     \<comment> \<open>a client connects to the receive port\<close>
  | Fetch conn      \<comment> \<open>a client connects to the fetch port\<close>
  | Sweep           \<comment> \<open>one iteration of the queue parser\<close>
  | Start bool      \<comment> \<open>\<open>start(terminal)\<close>\<close>
  | Stop            \<comment> \<open>\<open>stop()\<close>\<close>

fun exec :: "'p env \<Rightarrow> op \<Rightarrow> 'p Broker \<Rightarrow> 'p Broker \<times> 'p event list" where
  "exec E (Submit c) s = (if running s then msgreceiver_body E c s else (s, []))"
| "exec E (Fetch c) s = (if running s then fetchwatcher_body E c s else (s, []))"
| "exec E Sweep s = (if running s then queueparser_body s else (s, []))"
| "exec E (Start t) s = (start t s, [])"
| "exec E Stop s = (stop s, [])"

fun run :: "'p env \<Rightarrow> op list \<Rightarrow> 'p Broker \<Rightarrow> 'p Broker \<times> 'p event list" where
  "run E [] s = (s, [])"
| "run E (x # xs) s =
     (case exec E x s of (s1, e1) \<Rightarrow> (case run E xs s1 of (s2, e2) \<Rightarrow> (s2, e1 @ e2)))"

text \<open>What a trace pushed to and popped from the queue of \<open>d\<close>, in order.\<close>

fun pushed :: "string \<Rightarrow> 'p event list \<Rightarrow> 'p Message list" where
  "pushed d [] = []"
| "pushed d (Pushed d' m # evs) = (if d' = d then m # pushed d evs else pushed d evs)"
| "pushed d (e # evs) = pushed d evs"

fun popped :: "string \<Rightarrow> 'p event list \<Rightarrow> 'p Message list" where
  "popped d [] = []"
| "popped d (Popped d' m # evs) = (if d' = d then m # popped d evs else popped d evs)"
| "popped d (e # evs) = popped d evs"

definition queue_of :: "'p Broker \<Rightarrow> string \<Rightarrow> 'p Message list" where
  "queue_of s d = (case outgoing_queues s d of None \<Rightarrow> [] | Some q \<Rightarrow> q)"

text \<open>\<open>precedes a b xs\<close>: some occurrence of \<open>a\<close> in \<open>xs\<close> comes before one of \<open>b\<close>.\<close>

fun precedes :: "'a \<Rightarrow> 'a \<Rightarrow> 'a list \<Rightarrow> bool" where
  "precedes a b [] = False"
| "precedes a b (x # xs) = ((x = a \<and> b \<in> set xs) \<or> precedes a b xs)"

subsection \<open>A concrete frame layout\<close>

text \<open>
  Modelled from the spec: the frame parser of \<open>msg_lib.Message\<close>, which is missing from
  the sources. The spec (External Interfaces) gives the wire frame as version, type,
  sender address, destination address, payload length, payload, and lets decoding fail
  when the byte count disagrees with the declared payload length or a header field is
  missing. The spec gives no field widths: here the version and every length take one
  byte, the type takes two, each address follows its own length byte, and the payload is
  kept as its bytes. The results below hold for every parser; this one supplies the
  concrete frames at which they are instantiated.
\<close>

definition emp_parse :: "string parser" where
  "emp_parse raw =
     (case raw of
        v # t1 # t0 # ls # r1 \<Rightarrow>
          (let n = (of_char ls :: nat) in
           if length r1 < n + 1 then None
           else
             (let src = take n r1; r2 = drop n r1; m = (of_char (hd r2) :: nat); r3 = tl r2 in
              if length r3 < m + 1 then None
              else
                (let dst = take m r3; r4 = drop m r3; k = (of_char (hd r4) :: nat); pl = tl r4 in
                 if length pl \<noteq> k then None
                 else Some (256 * (of_char t1 :: nat) + of_char t0, src, dst, pl))))
      | _ \<Rightarrow> None)"

definition emp_env :: "nat \<Rightarrow> string env" where
  "emp_env n = \<lparr>MAX_MSG_SIZE = n, parse = emp_parse\<rparr>"

definition client :: "string \<Rightarrow> conn" where
  "client d = \<lparr>recv_data = Some d, send_ok = True\<rparr>"

text \<open>
  Two frames in transport form. \<open>frame_A\<close> is version 4, type 6000, from \<open>l\<close> to
  \<open>b\<close>, payload \<open>x\<close>; \<open>frame_B\<close> is the same with payload \<open>y\<close>;
  \<open>frame_bad\<close> declares two payload bytes and carries one.
\<close>

definition frame_A :: string where
  "frame_A = ''041770016C01620178''"

definition frame_B :: string where
  "frame_B = ''041770016c01620179''"

definition frame_bad :: string where
  "frame_bad = ''041770016c01620278''"

definition msg_A :: "string Message" where
  "msg_A = \<lparr>raw_msg = [CHR 0x04, CHR 0x17, CHR ''p'', CHR 0x01, CHR ''l'', CHR 0x01, CHR ''b'', CHR 0x01, CHR ''x''],
            msg_type = 6000, sender_addr = ''l'', dest_addr = ''b'', payload = ''x''\<rparr>"

definition msg_B :: "string Message" where
  "msg_B = \<lparr>raw_msg = [CHR 0x04, CHR 0x17, CHR ''p'', CHR 0x01, CHR ''l'', CHR 0x01, CHR ''b'', CHR 0x01, CHR ''y''],
            msg_type = 6000, sender_addr = ''l'', dest_addr = ''b'', payload = ''y''\<rparr>"

text \<open>The broker after it was started and accepted \<open>frame_A\<close>.\<close>

definition s_one :: "string Broker" where
  "s_one = fst (run (emp_env 64) [Start False, Submit (client frame_A)] Broker_init)"

text \<open>A client whose connection breaks before the broker replies.\<close>

definition dropped_client :: "string \<Rightarrow> conn" where
  "dropped_client d = \<lparr>recv_data = Some d, send_ok = False\<rparr>"

text \<open>The broker after the one message of \<open>s_one\<close> was fetched.\<close>

definition s_two :: "string Broker" where
  "s_two = fst (fetchwatcher_body (emp_env 64) (client ''b'') s_one)"

text \<open>The broker after start, one submission, stop and start again.\<close>

definition s_restarted :: "string Broker" where
  "s_restarted =
     fst (run (emp_env 64) [Start False, Submit (client frame_A), Stop, Start False] Broker_init)"

text \<open>\<open>frame_A\<close> followed by four more characters: 22 characters in all.\<close>

definition frame_long :: string where
  "frame_long = frame_A @ ''ffff''"

section \<open>Properties\<close>

subsection \<open>The hex codec\<close>

lemma of_char_less_256: "(of_char c :: nat) < 256"
proof -
  have "(of_char c :: nat) mod 256 < 256" by simp
  then show ?thesis by (simp only: of_char_mod_256)
qed

lemma hex_val_digit: "n < 16 \<Longrightarrow> hex_val (hex_digit n) = Some n"
  by (auto simp: hex_val_def hex_digit_def Let_def)

lemma hex_val_hi: "hex_val (hex_digit ((of_char c :: nat) div 16)) = Some ((of_char c :: nat) div 16)"
proof -
  have "(of_char c :: nat) div 16 < 16" using of_char_less_256 [of c] by arith
  then show ?thesis by (rule hex_val_digit)
qed

lemma hex_val_lo: "hex_val (hex_digit ((of_char c :: nat) mod 16)) = Some ((of_char c :: nat) mod 16)"
  by (rule hex_val_digit) simp

lemma hex_decode_encode: "hex_decode (hex_encode s) = Inr s"
  by (induction s) (simp_all add: hex_val_hi hex_val_lo)

subsection \<open>The loop bodies\<close>

lemma ascii_decode_Inr: "ascii_decode s = Inr r \<Longrightarrow> r = s"
  by (simp add: ascii_decode_def split: if_splits)

lemma Message_init_raw: "Message_init p raw = Inr m \<Longrightarrow> raw_msg m = raw"
  by (auto simp: Message_init_def split: option.splits)

lemma recv_msg_raw:
  assumes "recv_msg E c = Inr msg" and "recv_data c = Some data"
  shows "hex_decode (take (MAX_MSG_SIZE E) data) = Inr (raw_msg msg)"
  using assms
  by (auto simp: recv_msg_def conn_recv_def split: sum.splits dest!: ascii_decode_Inr Message_init_raw)

lemma enqueue_eq:
  "enqueue msg qs =
     qs(dest_addr msg \<mapsto> (case qs (dest_addr msg) of None \<Rightarrow> [] | Some q \<Rightarrow> q) @ [msg])"
  by (simp add: enqueue_def Let_def MsgQueue_init_def push_def split: option.splits)

lemma events_reply_fail: "pushed d (reply_fail c) = [] \<and> popped d (reply_fail c) = []"
  by (simp add: reply_fail_def conn_send_def)

lemma msgreceiver_body_cases:
  "msgreceiver_body E c s =
     (case recv_msg E c of
        Inl e \<Rightarrow> (s, reply_fail c)
      | Inr msg \<Rightarrow>
          if send_ok c
          then (s\<lparr>outgoing_queues := enqueue msg (outgoing_queues s)\<rparr>,
                [Sent ''OK'', Closed, Pushed (dest_addr msg) msg])
          else (s, reply_fail c))"
  by (simp add: msgreceiver_body_def msgreceiver_reply_def conn_send_def split: sum.splits)

lemma fetchwatcher_body_head:
  assumes "conn_recv (MAX_MSG_SIZE E) c = Inr d" and "ascii_decode d = Inr d"
      and "outgoing_queues s d = Some (m # rest)"
  shows "fetchwatcher_body E c s =
           (s\<lparr>outgoing_queues := (outgoing_queues s)(d \<mapsto> rest)\<rparr>,
            if send_ok c then [Popped d m, Sent (hex_encode (raw_msg m)), Closed]
            else [Popped d m])"
  using assms by (simp add: fetchwatcher_body_def fetch_pop_def pop_def conn_send_def)

lemma fetchwatcher_body_none:
  assumes "conn_recv (MAX_MSG_SIZE E) c = Inr d" and "ascii_decode d = Inr d"
      and "outgoing_queues s d = None \<or> outgoing_queues s d = Some []"
  shows "fetchwatcher_body E c s = (s, if send_ok c then [Sent ''EMPTY'', Closed] else [])"
  using assms by (auto simp: fetchwatcher_body_def fetch_pop_def pop_def conn_send_def)

subsection \<open>Every message pushed is popped at most once, in order\<close>

lemma submit_conservation:
  "popped d (snd (msgreceiver_body E c s)) @ queue_of (fst (msgreceiver_body E c s)) d
     = queue_of s d @ pushed d (snd (msgreceiver_body E c s))"
  by (simp add: msgreceiver_body_cases events_reply_fail enqueue_eq queue_of_def
           split: sum.splits option.splits)

lemma fetch_conservation:
  "popped d (snd (fetchwatcher_body E c s)) @ queue_of (fst (fetchwatcher_body E c s)) d
     = queue_of s d @ pushed d (snd (fetchwatcher_body E c s))"
  by (simp add: fetchwatcher_body_def fetch_pop_def pop_def conn_send_def queue_of_def
           split: sum.splits option.splits list.splits)

lemma queue_of_start: "queue_of (start t s) d = queue_of s d"
  by (simp add: start_def queue_of_def Let_def)

lemma queue_of_stop: "queue_of (stop s) d = queue_of s d"
  by (simp add: stop_def queue_of_def)

lemma exec_conservation:
  "popped d (snd (exec E x s)) @ queue_of (fst (exec E x s)) d
     = queue_of s d @ pushed d (snd (exec E x s))"
  by (cases x)
     (simp_all add: submit_conservation fetch_conservation queueparser_body_def
        queue_of_start queue_of_stop)

lemma pushed_append: "pushed d (xs @ ys) = pushed d xs @ pushed d ys"
  by (induction d xs rule: pushed.induct) simp_all

lemma popped_append: "popped d (xs @ ys) = popped d xs @ popped d ys"
  by (induction d xs rule: popped.induct) simp_all

lemma run_Cons:
  "run E (x # xs) s = (fst (run E xs (fst (exec E x s))), snd (exec E x s) @ snd (run E xs (fst (exec E x s))))"
  by (simp split: prod.splits)

lemma run_conservation:
  "popped d (snd (run E xs s)) @ queue_of (fst (run E xs s)) d
     = queue_of s d @ pushed d (snd (run E xs s))"
proof (induction xs arbitrary: s)
  case Nil
  show ?case by simp
next
  case (Cons x xs)
  let ?s1 = "fst (exec E x s)" and ?e1 = "snd (exec E x s)"
  let ?s2 = "fst (run E xs ?s1)" and ?e2 = "snd (run E xs ?s1)"
  have "popped d (?e1 @ ?e2) @ queue_of ?s2 d = popped d ?e1 @ (popped d ?e2 @ queue_of ?s2 d)"
    by (simp add: popped_append)
  also have "\<dots> = popped d ?e1 @ (queue_of ?s1 d @ pushed d ?e2)"
    by (simp only: Cons.IH)
  also have "\<dots> = (popped d ?e1 @ queue_of ?s1 d) @ pushed d ?e2"
    by simp
  also have "\<dots> = (queue_of s d @ pushed d ?e1) @ pushed d ?e2"
    by (simp only: exec_conservation)
  also have "\<dots> = queue_of s d @ pushed d (?e1 @ ?e2)"
    by (simp add: pushed_append)
  finally show ?case by (simp only: run_Cons fst_conv snd_conv)
qed

subsection \<open>Single operations of a running broker\<close>

lemma queue_of_upd: "queue_of (s\<lparr>outgoing_queues := (outgoing_queues s)(d \<mapsto> q)\<rparr>) d = q"
  by (simp add: queue_of_def)

lemma queue_of_Nil: "queue_of s d = [] \<longleftrightarrow> outgoing_queues s d = None \<or> outgoing_queues s d = Some []"
  by (simp add: queue_of_def split: option.splits)

lemma queue_of_Cons: "queue_of s d = m # rest \<longleftrightarrow> outgoing_queues s d = Some (m # rest)"
  by (simp add: queue_of_def split: option.splits)

lemma submit_step:
  assumes "running s" and "recv_msg E c = Inr m" and "send_ok c"
  shows "exec E (Submit c) s =
           (s\<lparr>outgoing_queues := (outgoing_queues s)(dest_addr m \<mapsto> queue_of s (dest_addr m) @ [m])\<rparr>,
            [Sent ''OK'', Closed, Pushed (dest_addr m) m])"
  using assms by (simp add: msgreceiver_body_cases enqueue_eq queue_of_def)

lemma fetch_step_head:
  assumes "running s" and "conn_recv (MAX_MSG_SIZE E) f = Inr d" and "ascii_decode d = Inr d"
      and "queue_of s d = m # rest"
  shows "exec E (Fetch f) s =
           (s\<lparr>outgoing_queues := (outgoing_queues s)(d \<mapsto> rest)\<rparr>,
            if send_ok f then [Popped d m, Sent (hex_encode (raw_msg m)), Closed] else [Popped d m])"
  using assms by (simp add: fetchwatcher_body_head queue_of_Cons)

lemma fetch_step_empty:
  assumes "running s" and "conn_recv (MAX_MSG_SIZE E) f = Inr d" and "ascii_decode d = Inr d"
      and "queue_of s d = []"
  shows "exec E (Fetch f) s = (s, if send_ok f then [Sent ''EMPTY'', Closed] else [])"
  using assms by (simp add: fetchwatcher_body_none queue_of_Nil)

subsection \<open>The keys of the dict, and what a submission reads\<close>

lemma dom_enqueue: "dom (enqueue msg qs) = insert (dest_addr msg) (dom qs)"
  by (simp add: enqueue_eq)

lemma dom_msgreceiver_body:
  "dom (outgoing_queues (fst (msgreceiver_body E c s))) =
     (case recv_msg E c of
        Inl e \<Rightarrow> dom (outgoing_queues s)
      | Inr m \<Rightarrow>
          if send_ok c then insert (dest_addr m) (dom (outgoing_queues s))
          else dom (outgoing_queues s))"
  by (simp add: msgreceiver_body_cases dom_enqueue split: sum.splits)

lemma dom_fetchwatcher_body:
  "dom (outgoing_queues (fst (fetchwatcher_body E c s))) = dom (outgoing_queues s)"
  by (auto simp: fetchwatcher_body_def fetch_pop_def pop_def conn_send_def
           split: sum.splits option.splits list.splits)

lemma outgoing_queues_start: "outgoing_queues (start t s) = outgoing_queues s"
  by (simp add: start_def Let_def)

lemma outgoing_queues_stop: "outgoing_queues (stop s) = outgoing_queues s"
  by (simp add: stop_def)

lemma exec_dom_mono: "dom (outgoing_queues s) \<subseteq> dom (outgoing_queues (fst (exec E x s)))"
  by (cases x)
     (auto simp: dom_msgreceiver_body dom_fetchwatcher_body queueparser_body_def
        outgoing_queues_start outgoing_queues_stop split: sum.splits)

lemma run_dom_mono: "dom (outgoing_queues s) \<subseteq> dom (outgoing_queues (fst (run E xs s)))"
proof (induction xs arbitrary: s)
  case Nil
  show ?case by simp
next
  case (Cons x xs)
  have "dom (outgoing_queues s) \<subseteq> dom (outgoing_queues (fst (exec E x s)))"
    by (rule exec_dom_mono)
  also have "\<dots> \<subseteq> dom (outgoing_queues (fst (run E xs (fst (exec E x s)))))"
    by (rule Cons.IH)
  finally show ?case by (simp only: run_Cons fst_conv)
qed

lemma recv_msg_prefix:
  "recv_msg E (c\<lparr>recv_data := map_option (take (MAX_MSG_SIZE E)) (recv_data c)\<rparr>) = recv_msg E c"
  by (simp add: recv_msg_def conn_recv_def split: option.splits)

lemma reply_fail_recv_data: "reply_fail (c\<lparr>recv_data := d\<rparr>) = reply_fail c"
  by (simp add: reply_fail_def conn_send_def)

subsection \<open>The concrete frames\<close>

lemma w_recv_A: "recv_msg (emp_env 64) (client frame_A) = Inr msg_A"
  by code_simp

lemma w_recv_B: "recv_msg (emp_env 64) (client frame_B) = Inr msg_B"
  by code_simp

lemma w_req_b: "conn_recv (MAX_MSG_SIZE (emp_env 64)) (client ''b'') = Inr ''b''"
  by code_simp

lemma w_ascii_b: "ascii_decode ''b'' = Inr ''b''"
  by code_simp

lemma w_client_ok: "send_ok (client d)"
  by (simp add: client_def)

lemma w_client_data: "recv_data (client d) = Some d"
  by (simp add: client_def)

lemma w_dest_A: "dest_addr msg_A = ''b''"
  by (simp add: msg_A_def)

lemma w_dest_B: "dest_addr msg_B = ''b''"
  by (simp add: msg_B_def)

lemma w_s_one: "outgoing_queues s_one ''b'' = Some [msg_A]"
  by code_simp

lemma w_running: "running (start False Broker_init)"
  by (simp add: start_def Broker_init_def Let_def)

lemma w_started_empty: "queue_of (start False Broker_init) d = []"
  by (simp add: start_def Broker_init_def Let_def queue_of_def)

lemma w_req_zz: "conn_recv (MAX_MSG_SIZE (emp_env 64)) (client ''zz'') = Inr ''zz''"
  by code_simp

lemma w_ascii_zz: "ascii_decode ''zz'' = Inr ''zz''"
  by code_simp

lemma w_s_one_zz: "outgoing_queues s_one ''zz'' = None"
  by code_simp

lemma w_s_two: "outgoing_queues s_two ''b'' = Some []"
  by code_simp

lemma w_recv_bad: "recv_msg (emp_env 64) (client frame_bad) = Inl MalformedMessage"
  by code_simp

lemma w_req_dropped: "conn_recv (MAX_MSG_SIZE (emp_env 64)) (dropped_client ''b'') = Inr ''b''"
  by code_simp

lemma w_dropped: "\<not> send_ok (dropped_client d)"
  by (simp add: dropped_client_def)

section \<open>The claims\<close>

text \<open>
  C1. A message whose frame the submit listener decoded is appended to the queue of its
  destination; the fetch that pops it sends the hex encoding of its stored raw bytes, and
  undoing the hex encoding of that reply gives the same bytes as undoing the hex encoding
  of what the listener received (the first \<open>MAX_MSG_SIZE\<close> bytes of the submission).
  The fetch is one made while the message is still at the head of its queue; expiry is
  not part of the model.
\<close>

theorem C1_roundtrip:
  assumes sub: "recv_data c = Some data"
      and dec: "recv_msg E c = Inr msg"
      and okc: "send_ok c"
      and req: "conn_recv (MAX_MSG_SIZE E) c2 = Inr (dest_addr msg)"
               "ascii_decode (dest_addr msg) = Inr (dest_addr msg)"
      and ok2: "send_ok c2"
      and head: "outgoing_queues s2 (dest_addr msg) = Some (msg # rest)"
  shows "queue_of (fst (msgreceiver_body E c s)) (dest_addr msg) = queue_of s (dest_addr msg) @ [msg]
       \<and> snd (fetchwatcher_body E c2 s2)
           = [Popped (dest_addr msg) msg, Sent (hex_encode (raw_msg msg)), Closed]
       \<and> hex_decode (hex_encode (raw_msg msg)) = hex_decode (take (MAX_MSG_SIZE E) data)"
proof -
  have a: "queue_of (fst (msgreceiver_body E c s)) (dest_addr msg) = queue_of s (dest_addr msg) @ [msg]"
    using dec okc by (simp add: msgreceiver_body_cases enqueue_eq queue_of_def)
  have b: "snd (fetchwatcher_body E c2 s2)
           = [Popped (dest_addr msg) msg, Sent (hex_encode (raw_msg msg)), Closed]"
    using fetchwatcher_body_head [OF req head] ok2 by simp
  have c: "hex_decode (hex_encode (raw_msg msg)) = hex_decode (take (MAX_MSG_SIZE E) data)"
    using recv_msg_raw [OF dec sub] by (simp add: hex_decode_encode)
  from a b c show ?thesis by simp
qed

text \<open>
  At \<open>frame_A\<close>, which is written with an upper-case digit: the reply is the lower-case
  encoding, a different string that decodes to the same bytes.
\<close>

theorem C1_roundtrip_witness:
  "snd (fetchwatcher_body (emp_env 64) (client ''b'') s_one)
     = [Popped ''b'' msg_A, Sent (hex_encode (raw_msg msg_A)), Closed]
   \<and> hex_decode (hex_encode (raw_msg msg_A)) = hex_decode (take 64 frame_A)
   \<and> hex_encode (raw_msg msg_A) \<noteq> frame_A"
proof -
  have req: "conn_recv (MAX_MSG_SIZE (emp_env 64)) (client ''b'') = Inr (dest_addr msg_A)"
    by (simp only: w_dest_A w_req_b)
  have asc: "ascii_decode (dest_addr msg_A) = Inr (dest_addr msg_A)"
    by (simp only: w_dest_A w_ascii_b)
  have hd: "outgoing_queues s_one (dest_addr msg_A) = Some (msg_A # [])"
    by (simp only: w_dest_A w_s_one)
  have ne: "hex_encode (raw_msg msg_A) \<noteq> frame_A"
    by code_simp
  have m: "MAX_MSG_SIZE (emp_env 64) = 64"
    by (simp add: emp_env_def)
  from C1_roundtrip [OF w_client_data w_recv_A w_client_ok req asc w_client_ok hd, of Broker_init]
  show ?thesis using ne by (simp add: w_dest_A m)
qed

text \<open>
  C2. From a running broker in which the queue of \<open>d\<close> is empty or absent, after
  \<open>A\<close> and then \<open>B\<close> are submitted to \<open>d\<close> the first fetch for \<open>d\<close> pops and sends
  \<open>A\<close>, the second \<open>B\<close>, and the third finds nothing. In every run, from every state and
  for every destination, the messages popped so far followed by the queue that is left
  are the initial queue followed by the messages pushed so far: messages leave in the
  order they arrived, and each one that was pushed leaves at most once.
\<close>

theorem C2_fifo_single_delivery:
  assumes up: "running s" and emp: "queue_of s d = []"
      and a: "recv_msg E ca = Inr a" "send_ok ca" "dest_addr a = d"
      and b: "recv_msg E cb = Inr b" "send_ok cb" "dest_addr b = d"
      and f: "conn_recv (MAX_MSG_SIZE E) f = Inr d" "ascii_decode d = Inr d" "send_ok f"
  shows "snd (run E [Submit ca, Submit cb, Fetch f, Fetch f, Fetch f] s)
           = [Sent ''OK'', Closed, Pushed d a, Sent ''OK'', Closed, Pushed d b,
              Popped d a, Sent (hex_encode (raw_msg a)), Closed,
              Popped d b, Sent (hex_encode (raw_msg b)), Closed,
              Sent ''EMPTY'', Closed]
       \<and> popped d' (snd (run E xs s0)) @ queue_of (fst (run E xs s0)) d'
           = queue_of s0 d' @ pushed d' (snd (run E xs s0))"
proof -
  define s1 where "s1 = s\<lparr>outgoing_queues := (outgoing_queues s)(d \<mapsto> [a])\<rparr>"
  define s2 where "s2 = s1\<lparr>outgoing_queues := (outgoing_queues s1)(d \<mapsto> [a, b])\<rparr>"
  define s3 where "s3 = s2\<lparr>outgoing_queues := (outgoing_queues s2)(d \<mapsto> [b])\<rparr>"
  define s4 where "s4 = s3\<lparr>outgoing_queues := (outgoing_queues s3)(d \<mapsto> [])\<rparr>"
  have r1: "running s1" and q1: "queue_of s1 d = [a]"
    using up by (simp_all add: s1_def queue_of_def)
  have r2: "running s2" and q2: "queue_of s2 d = [a, b]"
    using r1 by (simp_all add: s2_def queue_of_def)
  have r3: "running s3" and q3: "queue_of s3 d = [b]"
    using r2 by (simp_all add: s3_def queue_of_def)
  have r4: "running s4" and q4: "queue_of s4 d = []"
    using r3 by (simp_all add: s4_def queue_of_def)
  have e1: "exec E (Submit ca) s = (s1, [Sent ''OK'', Closed, Pushed d a])"
    using submit_step [OF up a(1) a(2)] emp by (simp add: a(3) s1_def)
  have e2: "exec E (Submit cb) s1 = (s2, [Sent ''OK'', Closed, Pushed d b])"
    using submit_step [OF r1 b(1) b(2)] q1 by (simp add: b(3) s2_def)
  have e3: "exec E (Fetch f) s2 = (s3, [Popped d a, Sent (hex_encode (raw_msg a)), Closed])"
    using fetch_step_head [OF r2 f(1) f(2) q2] f(3) by (simp add: s3_def)
  have e4: "exec E (Fetch f) s3 = (s4, [Popped d b, Sent (hex_encode (raw_msg b)), Closed])"
    using fetch_step_head [OF r3 f(1) f(2) q3] f(3) by (simp add: s4_def)
  have e5: "exec E (Fetch f) s4 = (s4, [Sent ''EMPTY'', Closed])"
    using fetch_step_empty [OF r4 f(1) f(2) q4] f(3) by simp
  have scenario: "snd (run E [Submit ca, Submit cb, Fetch f, Fetch f, Fetch f] s)
           = [Sent ''OK'', Closed, Pushed d a, Sent ''OK'', Closed, Pushed d b,
              Popped d a, Sent (hex_encode (raw_msg a)), Closed,
              Popped d b, Sent (hex_encode (raw_msg b)), Closed,
              Sent ''EMPTY'', Closed]"
    by (simp add: e1 e2 e3 e4 e5 del: exec.simps)
  from scenario run_conservation [of d' E xs s0] show ?thesis by simp
qed

theorem C2_fifo_single_delivery_witness:
  "snd (run (emp_env 64)
          [Submit (client frame_A), Submit (client frame_B),
           Fetch (client ''b''), Fetch (client ''b''), Fetch (client ''b'')]
          (start False Broker_init))
     = [Sent ''OK'', Closed, Pushed ''b'' msg_A, Sent ''OK'', Closed, Pushed ''b'' msg_B,
        Popped ''b'' msg_A, Sent (hex_encode (raw_msg msg_A)), Closed,
        Popped ''b'' msg_B, Sent (hex_encode (raw_msg msg_B)), Closed,
        Sent ''EMPTY'', Closed]"
  using C2_fifo_single_delivery [OF w_running w_started_empty w_recv_A w_client_ok w_dest_A
          w_recv_B w_client_ok w_dest_B w_req_b w_ascii_b w_client_ok]
  by simp

text \<open>
  C3. A fetch whose request was received and names \<open>d\<close>, where the dict has no queue for
  \<open>d\<close> or the queue of \<open>d\<close> is empty, leaves the broker state unchanged and sends
  \<open>EMPTY\<close> and nothing else; the body is a function of the current state, it does not
  wait for a later submission.
\<close>

theorem C3_empty_sentinel:
  assumes "conn_recv (MAX_MSG_SIZE E) c = Inr d" and "ascii_decode d = Inr d"
      and "outgoing_queues s d = None \<or> outgoing_queues s d = Some []"
  shows "fetchwatcher_body E c s = (s, if send_ok c then [Sent ''EMPTY'', Closed] else [])"
  using assms by (rule fetchwatcher_body_none)

theorem C3_empty_sentinel_witness:
  "fetchwatcher_body (emp_env 64) (client ''zz'') s_one = (s_one, [Sent ''EMPTY'', Closed])
   \<and> fetchwatcher_body (emp_env 64) (client ''b'') s_two = (s_two, [Sent ''EMPTY'', Closed])"
proof -
  have n: "outgoing_queues s_one ''zz'' = None \<or> outgoing_queues s_one ''zz'' = Some []"
    by (simp add: w_s_one_zz)
  have e: "outgoing_queues s_two ''b'' = None \<or> outgoing_queues s_two ''b'' = Some []"
    by (simp add: w_s_two)
  from C3_empty_sentinel [OF w_req_zz w_ascii_zz n] C3_empty_sentinel [OF w_req_b w_ascii_b e]
  show ?thesis by (simp add: w_client_ok)
qed

text \<open>
  C4. When receiving or decoding the submitted frame fails, the submit listener answers
  \<open>FAIL\<close>, closes the connection and leaves the broker state, hence every queue,
  unchanged.
\<close>

theorem C4_decode_failure:
  assumes "recv_msg E c = Inl e"
  shows "msgreceiver_body E c s = (s, if send_ok c then [Sent ''FAIL'', Closed] else [Closed])"
  using assms by (simp add: msgreceiver_body_cases reply_fail_def conn_send_def)

text \<open>At \<open>frame_bad\<close>, whose payload length field disagrees with its byte count.\<close>

theorem C4_decode_failure_witness:
  "msgreceiver_body (emp_env 64) (client frame_bad) s_one = (s_one, [Sent ''FAIL'', Closed])
   \<and> queue_of (fst (msgreceiver_body (emp_env 64) (client frame_bad) s_one)) ''b'' = [msg_A]"
  using C4_decode_failure [OF w_recv_bad, of s_one]
  by (simp add: w_client_ok queue_of_def w_s_one)

text \<open>
  C6, amended. When the frame decodes and \<open>OK\<close> can be sent, the \<open>try\<close> block
  sends \<open>OK\<close> and closes the connection without touching the dict; the message is
  appended to the queue of its destination (created if absent) after that, so the reply
  precedes the push.
\<close>

theorem C6_reply_then_enqueue:
  assumes "recv_msg E c = Inr msg" and "send_ok c"
  shows "msgreceiver_reply E c = ([Sent ''OK'', Closed], Some msg)
       \<and> msgreceiver_body E c s =
           (s\<lparr>outgoing_queues :=
                (outgoing_queues s)(dest_addr msg \<mapsto> queue_of s (dest_addr msg) @ [msg])\<rparr>,
            [Sent ''OK'', Closed, Pushed (dest_addr msg) msg])
       \<and> precedes (Sent ''OK'') (Pushed (dest_addr msg) msg) (snd (msgreceiver_body E c s))"
  using assms
  by (simp add: msgreceiver_body_cases msgreceiver_reply_def conn_send_def enqueue_eq queue_of_def)

theorem C6_reply_then_enqueue_witness:
  "snd (msgreceiver_body (emp_env 64) (client frame_A) (start False Broker_init))
     = [Sent ''OK'', Closed, Pushed ''b'' msg_A]
   \<and> queue_of (fst (msgreceiver_body (emp_env 64) (client frame_A) (start False Broker_init))) ''b''
     = [msg_A]"
  using C6_reply_then_enqueue [OF w_recv_A w_client_ok, of "start False Broker_init"]
  by (simp add: w_dest_A w_started_empty queue_of_upd)

text \<open>
  C6 as stated asks for the push to come before the \<open>OK\<close>. At \<open>frame_A\<close> it does
  not.
\<close>

theorem C6_push_before_reply_counterexample:
  "\<not> precedes (Pushed ''b'' msg_A) (Sent ''OK'')
        (snd (msgreceiver_body (emp_env 64) (client frame_A) (start False Broker_init)))"
  by code_simp

text \<open>
  C7, amended. \<open>stop\<close> changes the running flag only (and replaces the thread objects,
  which are not part of the state here): the dict of queues is the same after \<open>stop\<close>
  and after a following \<open>start\<close>, which sets the flag again. The dict is empty in a
  newly constructed broker.
\<close>

theorem C7_stop_keeps_store:
  "outgoing_queues (stop s) = outgoing_queues s
   \<and> outgoing_queues (start t (stop s)) = outgoing_queues s
   \<and> running (start t (stop s))
   \<and> outgoing_queues (Broker_init :: 'p Broker) = Map.empty"
  by (simp add: stop_def start_def Let_def Broker_init_def)

text \<open>
  C7 as stated asks for an empty store after \<open>stop\<close>. A message submitted before
  \<open>stop\<close> is still queued after \<open>stop\<close> and \<open>start\<close>, and the next fetch serves it.
\<close>

theorem C7_store_cleared_counterexample:
  "queue_of s_restarted ''b'' = [msg_A]
   \<and> snd (fetchwatcher_body (emp_env 64) (client ''b'') s_restarted)
       = [Popped ''b'' msg_A, Sent ''041770016c01620178'', Closed]"
  by code_simp

text \<open>
  C8, amended. The submit listener reads at most \<open>MAX_MSG_SIZE\<close> bytes of a submission
  and handles it exactly as it would handle that prefix sent alone: what lies beyond the
  bound is never decoded or enqueued, and the length of the submission is never checked.
\<close>

theorem C8_only_prefix_read:
  "msgreceiver_body E c s
     = msgreceiver_body E (c\<lparr>recv_data := map_option (take (MAX_MSG_SIZE E)) (recv_data c)\<rparr>) s"
  by (simp add: msgreceiver_body_cases recv_msg_prefix reply_fail_recv_data split: sum.splits)

text \<open>
  C8 as stated asks for an oversize submission to be rejected unparsed. With a bound of 18
  characters, the 22 characters of \<open>frame_long\<close> are answered \<open>OK\<close> and the message
  of their first 18 characters is enqueued.
\<close>

theorem C8_oversize_rejected_counterexample:
  "MAX_MSG_SIZE (emp_env 18) < length frame_long
   \<and> snd (msgreceiver_body (emp_env 18) (client frame_long) (start False Broker_init))
       = [Sent ''OK'', Closed, Pushed ''b'' msg_A]"
  by code_simp

text \<open>
  C9. Over every run the set of keys of the dict only grows. A fetch, an iteration of the
  queue parser, \<open>start\<close> and \<open>stop\<close> leave the set of keys as it is; a submission adds
  the destination of its message when the frame decoded and \<open>OK\<close> was sent, and leaves
  the set as it is otherwise.
\<close>

theorem C9_keys_monotone:
  "dom (outgoing_queues s) \<subseteq> dom (outgoing_queues (fst (run E xs s)))
   \<and> dom (outgoing_queues (fst (fetchwatcher_body E c s))) = dom (outgoing_queues s)
   \<and> dom (outgoing_queues (fst (queueparser_body s))) = dom (outgoing_queues s)
   \<and> dom (outgoing_queues (start t s)) = dom (outgoing_queues s)
   \<and> dom (outgoing_queues (stop s)) = dom (outgoing_queues s)
   \<and> dom (outgoing_queues (fst (msgreceiver_body E c s))) =
       (case recv_msg E c of
          Inl e \<Rightarrow> dom (outgoing_queues s)
        | Inr m \<Rightarrow>
            if send_ok c then insert (dest_addr m) (dom (outgoing_queues s))
            else dom (outgoing_queues s))"
  by (simp add: run_dom_mono dom_fetchwatcher_body queueparser_body_def
        outgoing_queues_start outgoing_queues_stop dom_msgreceiver_body)

text \<open>
  C10. When the queue of the requested destination has a head and sending fails, the fetch
  has already popped the head: the queue is left with the rest, nothing is sent, and the
  resulting state is the one a successful send would have left.
\<close>

theorem C10_pop_not_rolled_back:
  assumes req: "conn_recv (MAX_MSG_SIZE E) c = Inr d" "ascii_decode d = Inr d"
      and head: "outgoing_queues s d = Some (m # rest)"
      and broken: "\<not> send_ok c"
  shows "fetchwatcher_body E c s =
           (s\<lparr>outgoing_queues := (outgoing_queues s)(d \<mapsto> rest)\<rparr>, [Popped d m])
       \<and> fst (fetchwatcher_body E c s) = fst (fetchwatcher_body E (c\<lparr>send_ok := True\<rparr>) s)"
proof -
  have req': "conn_recv (MAX_MSG_SIZE E) (c\<lparr>send_ok := True\<rparr>) = Inr d"
    using req(1) by (simp add: conn_recv_def)
  show ?thesis
    using fetchwatcher_body_head [OF req head] fetchwatcher_body_head [OF req' req(2) head] broken
    by simp
qed

theorem C10_pop_not_rolled_back_witness:
  "snd (fetchwatcher_body (emp_env 64) (dropped_client ''b'') s_one) = [Popped ''b'' msg_A]
   \<and> queue_of (fst (fetchwatcher_body (emp_env 64) (dropped_client ''b'') s_one)) ''b'' = []"
  using C10_pop_not_rolled_back [OF w_req_dropped w_ascii_b w_s_one w_dropped]
  by (simp add: queue_of_def)

end
